theory Spec2Isabelle
  imports Main "HOL-Library.Multiset"
begin

section \<open>Data model\<close>

text \<open>
  A Python \<open>str\<close> is a sequence of Unicode code points and \<open>len\<close> counts code points, so
  message texts, usernames and joke bodies are lists of code points. \<open>py\<close> turns an ASCII
  literal of the source into such a list.
\<close>

type_synonym pystr = "nat list"

definition py :: "string \<Rightarrow> pystr" where
  "py s = map of_char s"

text \<open>
  The persisted rows. \<open>app.models\<close> is imported by the bot but is not among the sources;
  the columns are the keyword arguments of the constructor calls \<open>User(id=, username=, score=)\<close>
  and \<open>Joke(id=, body=, vote_count=, author=)\<close>. A Python object reference to a row is
  modelled by the row's primary key, so \<open>author\<close> holds the author's id.
\<close>

record User =
  user_id :: int
  username :: pystr
  score :: int

record Joke =
  joke_id :: int
  body :: pystr
  vote_count :: int
  author :: int

record Vote =
  voter :: int
  voted_joke :: int
  positive :: bool

record database =
  users :: "User list"
  jokes :: "Joke list"
  votes :: "Vote list"

text \<open>
  \<open>user_data\<close> is the per-user dictionary handed to every handler. The bot uses three keys:
  \<open>'current_user'\<close>, \<open>'last_joke'\<close> and \<open>'user'\<close>; an absent key is \<open>None\<close>. The values are
  references to rows.
\<close>

record user_data =
  current_user :: "int option"
  last_joke :: "int option"
  user_key :: "int option"

record message =
  chat_id :: int
  text' :: pystr

datatype error =
  UserDoesNotExist | InvalidCharacters | TooShort | TooLong | InvalidVote
  | AssertionError | ValueError

text \<open>
  What a handler sends. The response catalogue (a JSON file keyed by state name) is outside
  the sources: \<open>Response k\<close> stands for the text \<open>private_get_random_response(k)\<close> picks,
  \<open>One_response k\<close> for \<open>private_get_one_response(k)\<close>, \<open>Text s\<close> for a text computed by the bot.
  All messages go to the chat of the incoming message.
\<close>

datatype content = Response string | One_response string | Text pystr

datatype markup =
  No_markup
  | ReplyKeyboardMarkup "content list list" bool
  | ReplyKeyboardRemove

datatype effect =
  reply_text content
  | reply_markdown content
  | send_message content markup
  | log_error error

text \<open>
  The value a handler returns to the conversation machinery: Python's \<open>None\<close> or a state
  number. \<open>ConversationHandler.END\<close> is the library's constant \<open>-1\<close>.
\<close>

datatype ret = PyNone | State int

definition USERNAME_RECEIVED :: int where
  "USERNAME_RECEIVED = 0"

definition JOKE_RECEIVED :: int where
  "JOKE_RECEIVED = 0"

definition END :: int where
  "END = - 1"

text \<open>
  The result of running one handler: the exception that escaped it (if any), the value it
  returned, the database and the user's dictionary afterwards, and what it sent, in order.
\<close>

record outcome =
  raised :: "error option"
  returned :: ret
  db_after :: database
  data_after :: user_data
  out :: "effect list"

section \<open>Constants of the bot\<close>

definition JOKE_LENGTH_MIN :: nat where
  "JOKE_LENGTH_MIN = 10"

definition JOKE_LENGTH_MAX :: nat where
  "JOKE_LENGTH_MAX = 1000"

definition USERNAME_LENGTH_MIN :: nat where
  "USERNAME_LENGTH_MIN = 5"

definition USERNAME_LENGTH_MAX :: nat where
  "USERNAME_LENGTH_MAX = 20"

definition ascii_letters :: string where
  "ascii_letters = ''abcdefghijklmnopqrstuvwxyzABCDEFGHIJKLMNOPQRSTUVWXYZ''"

definition digits :: string where
  "digits = ''0123456789''"

definition USERNAME_ALLOWED_CHARACTERS :: "nat set" where
  "USERNAME_ALLOWED_CHARACTERS = set (py (ascii_letters @ digits @ ''-_''))"

section \<open>Private methods\<close>

text \<open>\<open>private_get_user\<close>: the cached user if there is one, else the row whose id is the chat id,
  which is then cached; \<open>UserDoesNotExist\<close> if there is no such row.\<close>

definition private_get_user :: "database \<Rightarrow> message \<Rightarrow> user_data \<Rightarrow> error + (int \<times> user_data)" where
  "private_get_user db msg ud =
     (case current_user ud of
        Some u \<Rightarrow> Inr (u, ud)
      | None \<Rightarrow>
          (case find (\<lambda>u. user_id u = chat_id msg) (users db) of
             None \<Rightarrow> Inl UserDoesNotExist
           | Some u \<Rightarrow> Inr (user_id u, ud\<lparr>current_user := Some (user_id u)\<rparr>)))"

definition private_add_user :: "database \<Rightarrow> int \<Rightarrow> pystr \<Rightarrow> error + (User \<times> database)" where
  "private_add_user db uid name =
     (if \<not> set name \<subseteq> USERNAME_ALLOWED_CHARACTERS then Inl InvalidCharacters
      else if length name < USERNAME_LENGTH_MIN then Inl TooShort
      else if USERNAME_LENGTH_MAX < length name then Inl TooLong
      else
        (case find (\<lambda>u. user_id u = uid) (users db) of
           Some u \<Rightarrow> Inl AssertionError
         | None \<Rightarrow>
             (let new_user = \<lparr>user_id = uid, username = name, score = 0\<rparr>
              in Inr (new_user, db\<lparr>users := users db @ [new_user]\<rparr>))))"

text \<open>
  \<open>order_by\<close> is the query \<open>session.query(..).order_by(column).all()\<close>: the rows in ascending
  order of the column. The order of rows with equal keys is left to the store; the model
  keeps them in the store's order (a stable sort).
\<close>

definition order_by :: "('a \<Rightarrow> int) \<Rightarrow> 'a list \<Rightarrow> 'a list" where
  "order_by column rows = sort_key column rows"

text \<open>\<open>private_add_joke\<close> ends with a bare \<open>return\<close>: the value returned is \<open>None\<close>, here
  \<open>None :: Joke option\<close>.\<close>

definition private_add_joke :: "database \<Rightarrow> pystr \<Rightarrow> int \<Rightarrow> error + (Joke option \<times> database)" where
  "private_add_joke db joke_body auth =
     (if length joke_body < JOKE_LENGTH_MIN then Inl TooShort
      else if JOKE_LENGTH_MAX < length joke_body then Inl TooLong
      else
        (let all_jokes = order_by joke_id (jokes db);
             new_id = (if all_jokes = [] then 0 else joke_id (last all_jokes) + 1);
             new_joke = \<lparr>joke_id = new_id, body = joke_body, vote_count = 0, author = auth\<rparr>
         in Inr (None, db\<lparr>jokes := jokes db @ [new_joke]\<rparr>)))"

text \<open>
  Modelled from the spec: the relationship attributes \<open>User.jokes_submitted\<close> and
  \<open>User.jokes_voted_for\<close> of \<open>app.models\<close>, which is not among the sources. The spec's
  persisted layout is the user and joke tables "plus a vote-association table";
  \<open>jokes_submitted\<close> is the jokes the user authored, \<open>jokes_voted_for\<close> the jokes the user
  has a vote row for.
\<close>

definition jokes_submitted :: "database \<Rightarrow> int \<Rightarrow> Joke list" where
  "jokes_submitted db u = filter (\<lambda>j. author j = u) (jokes db)"

definition jokes_voted_for :: "database \<Rightarrow> int \<Rightarrow> Joke list" where
  "jokes_voted_for db u =
     filter (\<lambda>j. list_ex (\<lambda>v. voter v = u \<and> voted_joke v = joke_id j) (votes db)) (jokes db)"

text \<open>
  Modelled from the spec: \<open>User.vote_for_joke(joke, positive)\<close> of \<open>app.models\<close>. A vote on
  an own joke or a second vote on the same joke raises \<open>InvalidVote\<close>; otherwise the vote is
  recorded and the joke's \<open>vote_count\<close> goes up or down by one. The handlers below take the
  method as a parameter; this definition is the instance the examples run.
\<close>

definition User_vote_for_joke :: "database \<Rightarrow> int \<Rightarrow> int \<Rightarrow> bool \<Rightarrow> error option \<times> database" where
  "User_vote_for_joke db u j pos =
     (if list_ex (\<lambda>x. joke_id x = j \<and> author x = u) (jokes db)
         \<or> list_ex (\<lambda>v. voter v = u \<and> voted_joke v = j) (votes db)
      then (Some InvalidVote, db)
      else (None,
        db\<lparr>jokes := map (\<lambda>x. if joke_id x = j
                                then x\<lparr>vote_count := vote_count x + (if pos then 1 else - 1)\<rparr>
                                else x) (jokes db),
           votes := votes db @ [\<lparr>voter = u, voted_joke = j, positive = pos\<rparr>]\<rparr>))"

section \<open>Keyboards\<close>

definition display_new_user_keyboard :: "effect list" where
  "display_new_user_keyboard =
     [send_message (Response ''user_not_registered'')
        (ReplyKeyboardMarkup
           [[One_response ''user_new_keyboard_button''], [Text (py ''/cancel'')]] True)]"

definition display_menu_keyboard :: "effect list" where
  "display_menu_keyboard =
     [send_message (Response ''menu'')
        (ReplyKeyboardMarkup
           [[Text (py ''/random_joke'')], [Text (py ''/random_favorite_joke'')],
            [Text (py ''/best_joke'')], [Text (py ''/add_joke'')], [Text (py ''/profile'')],
            [Text (py ''/top10'')], [Text (py ''/help'')]] False)]"

definition display_vote_keyboard :: "effect list" where
  "display_vote_keyboard =
     [send_message (Response ''hah_or_nah'')
        (ReplyKeyboardMarkup [[Text (py ''/hah'')], [Text (py ''/nah'')]] True)]"

definition remove_keyboard :: "content \<Rightarrow> effect list" where
  "remove_keyboard t = [send_message t ReplyKeyboardRemove]"

section \<open>Conversation handlers\<close>

text \<open>
  The two registration and submission flows are \<open>ConversationHandler\<close>s of the
  \<open>telegram.ext\<close> library. The library keeps, per chat, the state of each conversation
  (\<open>None\<close> when no conversation is open) and after each handler call updates it from the
  handler's return value: \<open>END\<close> closes the conversation, \<open>None\<close> leaves the state as it is,
  any other value becomes the state.
\<close>

definition update_state :: "ret \<Rightarrow> int option \<Rightarrow> int option" where
  "update_state new_state current =
     (case new_state of
        PyNone \<Rightarrow> current
      | State s \<Rightarrow> if s = END then None else Some s)"

definition cancel :: "database \<Rightarrow> message \<Rightarrow> user_data \<Rightarrow> outcome" where
  "cancel db msg ud =
     \<lparr>raised = None, returned = State END, db_after = db, data_after = ud,
      out = [reply_text (Response ''cancel'')] @ display_menu_keyboard\<rparr>"

definition new_user_prompt :: "database \<Rightarrow> message \<Rightarrow> user_data \<Rightarrow> outcome" where
  "new_user_prompt db msg ud =
     \<lparr>raised = None, returned = State USERNAME_RECEIVED, db_after = db, data_after = ud,
      out = [reply_text (Response ''user_new_prompt'')]\<rparr>"

text \<open>The \<open>finally: return\<close> of the two handlers below discards any exception that is not
  caught by name and makes every path return \<open>None\<close>.\<close>

definition new_user_received_username :: "database \<Rightarrow> message \<Rightarrow> user_data \<Rightarrow> outcome" where
  "new_user_received_username db msg ud =
     (case private_add_user db (chat_id msg) (text' msg) of
        Inr (u, db1) \<Rightarrow>
          \<lparr>raised = None, returned = PyNone, db_after = db1,
           data_after = ud\<lparr>user_key := Some (user_id u)\<rparr>,
           out = [reply_text (Response ''user_register_success'')] @ display_menu_keyboard\<rparr>
      | Inl InvalidCharacters \<Rightarrow>
          \<lparr>raised = None, returned = PyNone, db_after = db, data_after = ud,
           out = [reply_text (Response ''username_invalid_characters'')]\<rparr>
      | Inl TooShort \<Rightarrow>
          \<lparr>raised = None, returned = PyNone, db_after = db, data_after = ud,
           out = [reply_text (Response ''username_too_short'')]\<rparr>
      | Inl TooLong \<Rightarrow>
          \<lparr>raised = None, returned = PyNone, db_after = db, data_after = ud,
           out = [reply_text (Response ''username_too_long'')]\<rparr>
      | Inl e \<Rightarrow>
          \<lparr>raised = None, returned = PyNone, db_after = db, data_after = ud, out = []\<rparr>)"

definition new_joke_prompt :: "database \<Rightarrow> message \<Rightarrow> user_data \<Rightarrow> outcome" where
  "new_joke_prompt db msg ud =
     \<lparr>raised = None, returned = State JOKE_RECEIVED, db_after = db, data_after = ud,
      out = [send_message (Response ''joke_new_prompt'') ReplyKeyboardRemove]\<rparr>"

definition new_joke_received :: "database \<Rightarrow> message \<Rightarrow> user_data \<Rightarrow> outcome" where
  "new_joke_received db msg ud =
     (case private_get_user db msg ud of
        Inl UserDoesNotExist \<Rightarrow>
          \<lparr>raised = None, returned = PyNone, db_after = db, data_after = ud,
           out = display_new_user_keyboard\<rparr>
      | Inl e \<Rightarrow>
          \<lparr>raised = Some e, returned = PyNone, db_after = db, data_after = ud, out = []\<rparr>
      | Inr (u, ud1) \<Rightarrow>
          (case private_add_joke db (text' msg) u of
             Inr (r, db1) \<Rightarrow>
               \<lparr>raised = None, returned = PyNone, db_after = db1, data_after = ud1,
                out = [reply_text (Response ''joke_submitted'')] @ display_menu_keyboard\<rparr>
           | Inl TooShort \<Rightarrow>
               \<lparr>raised = None, returned = PyNone, db_after = db, data_after = ud1,
                out = [reply_text (Response ''joke_too_short'')]\<rparr>
           | Inl TooLong \<Rightarrow>
               \<lparr>raised = None, returned = PyNone, db_after = db, data_after = ud1,
                out = [reply_text (Response ''joke_too_long'')]\<rparr>
           | Inl e \<Rightarrow>
               \<lparr>raised = None, returned = PyNone, db_after = db, data_after = ud1, out = []\<rparr>))"

section \<open>Showing jokes\<close>

text \<open>
  The loop shared by \<open>display_random_joke\<close> and \<open>display_best_joke\<close>: the first joke of the
  list that is neither in the user's \<open>jokes_voted_for\<close> nor in the user's \<open>jokes_submitted\<close>.
\<close>

fun first_unseen :: "database \<Rightarrow> int \<Rightarrow> Joke list \<Rightarrow> Joke option" where
  "first_unseen db u [] = None"
| "first_unseen db u (j # js) =
     (let voted_already = j \<in> set (jokes_voted_for db u);
          user_is_author = j \<in> set (jokes_submitted db u)
      in if \<not> voted_already \<and> \<not> user_is_author then Some j else first_unseen db u js)"

text \<open>
  \<open>display_random_joke\<close>. \<open>randint(0, len(all_jokes) - 1)\<close> raises \<open>ValueError\<close> exactly when
  there is no joke; its value is not used. \<open>random.shuffle\<close> is the parameter \<open>shuffle\<close>: the
  order the random generator produces.
\<close>

definition display_random_joke ::
  "(Joke list \<Rightarrow> Joke list) \<Rightarrow> database \<Rightarrow> message \<Rightarrow> user_data \<Rightarrow> outcome" where
  "display_random_joke shuffle db msg ud =
     (case private_get_user db msg ud of
        Inl UserDoesNotExist \<Rightarrow>
          \<lparr>raised = None, returned = PyNone, db_after = db, data_after = ud,
           out = display_new_user_keyboard\<rparr>
      | Inl e \<Rightarrow>
          \<lparr>raised = Some e, returned = PyNone, db_after = db, data_after = ud, out = []\<rparr>
      | Inr (u, ud1) \<Rightarrow>
          (let all_jokes = jokes db
           in if all_jokes = [] then
                \<lparr>raised = None, returned = PyNone, db_after = db, data_after = ud1,
                 out = [reply_text (Response ''no_new_jokes'')]\<rparr>
              else
                (case first_unseen db u (shuffle all_jokes) of
                   Some random_joke \<Rightarrow>
                     \<lparr>raised = None, returned = PyNone, db_after = db,
                      data_after = ud1\<lparr>last_joke := Some (joke_id random_joke)\<rparr>,
                      out = [reply_text (Text (body random_joke))] @ display_vote_keyboard\<rparr>
                 | None \<Rightarrow>
                     \<lparr>raised = None, returned = PyNone, db_after = db, data_after = ud1,
                      out = [reply_text (Response ''no_new_jokes'')]\<rparr>)))"

definition display_best_joke :: "database \<Rightarrow> message \<Rightarrow> user_data \<Rightarrow> outcome" where
  "display_best_joke db msg ud =
     (case private_get_user db msg ud of
        Inl UserDoesNotExist \<Rightarrow>
          \<lparr>raised = None, returned = PyNone, db_after = db, data_after = ud,
           out = display_new_user_keyboard\<rparr>
      | Inl e \<Rightarrow>
          \<lparr>raised = Some e, returned = PyNone, db_after = db, data_after = ud, out = []\<rparr>
      | Inr (u, ud1) \<Rightarrow>
          (let jokes_by_score = order_by vote_count (jokes db)
           in case first_unseen db u jokes_by_score of
                Some j \<Rightarrow>
                  \<lparr>raised = None, returned = PyNone, db_after = db, data_after = ud1,
                   out = [reply_text (Text (body j))]\<rparr>
              | None \<Rightarrow>
                  \<lparr>raised = None, returned = PyNone, db_after = db, data_after = ud1,
                   out = []\<rparr>))"

section \<open>Voting\<close>

text \<open>\<open>py_in p s\<close> is Python's \<open>p in s\<close> on strings: \<open>p\<close> occurs in \<open>s\<close> as a substring.\<close>

fun starts_with :: "pystr \<Rightarrow> pystr \<Rightarrow> bool" where
  "starts_with [] s = True"
| "starts_with (c # p) [] = False"
| "starts_with (c # p) (d # s) = (c = d \<and> starts_with p s)"

fun py_in :: "pystr \<Rightarrow> pystr \<Rightarrow> bool" where
  "py_in p [] = (p = [])"
| "py_in p (d # s) = (starts_with p (d # s) \<or> py_in p s)"

text \<open>
  \<open>vote_for_joke\<close>. \<open>User.vote_for_joke\<close> belongs to \<open>app.models\<close> and is the parameter
  \<open>vote\<close>: given the database, the user, the joke and the polarity it yields the exception
  it raised (if any) and the database it left. \<open>InvalidVote\<close> is caught and logged; the
  \<open>finally: return\<close> discards any other exception. In both cases the keyboard is removed
  with the \<open>after_vote\<close> response and \<open>'last_joke'\<close> is deleted.
\<close>

definition vote_for_joke ::
  "(database \<Rightarrow> int \<Rightarrow> int \<Rightarrow> bool \<Rightarrow> error option \<times> database)
     \<Rightarrow> database \<Rightarrow> message \<Rightarrow> user_data \<Rightarrow> outcome" where
  "vote_for_joke vote db msg ud =
     (case private_get_user db msg ud of
        Inl UserDoesNotExist \<Rightarrow>
          \<lparr>raised = None, returned = PyNone, db_after = db, data_after = ud,
           out = display_new_user_keyboard\<rparr>
      | Inl e \<Rightarrow>
          \<lparr>raised = Some e, returned = PyNone, db_after = db, data_after = ud, out = []\<rparr>
      | Inr (u, ud1) \<Rightarrow>
          (case last_joke ud1 of
             None \<Rightarrow>
               \<lparr>raised = None, returned = PyNone, db_after = db, data_after = ud1,
                out = [reply_text (Response ''joke_no_current'')]\<rparr>
           | Some j \<Rightarrow>
               (let (exc, db1) = vote db u j (py_in (py ''hah'') (text' msg));
                    logged = (case exc of Some InvalidVote \<Rightarrow> [log_error InvalidVote] | _ \<Rightarrow> [])
                in \<lparr>raised = None, returned = PyNone, db_after = db1,
                    data_after = ud1\<lparr>last_joke := None\<rparr>,
                    out = logged @ remove_keyboard (Response ''after_vote'')\<rparr>)))"

section \<open>Profile and leaderboard\<close>

text \<open>\<open>str_int\<close> is \<open>str\<close> on integers, as \<open>format\<close> renders them: decimal digits, with a
  minus sign for a negative number.\<close>

fun str_nat :: "nat \<Rightarrow> pystr" where
  "str_nat n = (if n < 10 then [48 + n] else str_nat (n div 10) @ [48 + n mod 10])"

definition str_int :: "int \<Rightarrow> pystr" where
  "str_int i = (if i < 0 then 45 # str_nat (nat (- i)) else str_nat (nat i))"

text \<open>\<open>list_index u rows\<close> is \<open>rows.index(user)\<close>: the position of the first row that is the
  user, \<open>ValueError\<close> if there is none.\<close>

fun list_index :: "int \<Rightarrow> User list \<Rightarrow> error + nat" where
  "list_index u [] = Inl ValueError"
| "list_index u (x # xs) =
     (if user_id x = u then Inr 0
      else (case list_index u xs of Inl e \<Rightarrow> Inl e | Inr i \<Rightarrow> Inr (Suc i)))"

text \<open>
  \<open>profile\<close>. \<open>User.get_average_score\<close> belongs to \<open>app.models\<close>; its rendering by \<open>format\<close> is
  the parameter \<open>get_average_score\<close>. \<open>get_jokes_submitted\<close> is read as \<open>jokes_submitted\<close>.
\<close>

definition profile ::
  "(database \<Rightarrow> int \<Rightarrow> pystr) \<Rightarrow> database \<Rightarrow> message \<Rightarrow> user_data \<Rightarrow> outcome" where
  "profile get_average_score db msg ud =
     (case private_get_user db msg ud of
        Inl UserDoesNotExist \<Rightarrow>
          \<lparr>raised = None, returned = PyNone, db_after = db, data_after = ud,
           out = display_new_user_keyboard\<rparr>
      | Inl e \<Rightarrow>
          \<lparr>raised = Some e, returned = PyNone, db_after = db, data_after = ud, out = []\<rparr>
      | Inr (u, ud1) \<Rightarrow>
          (let all_users = order_by score (users db)
           in case list_index u all_users of
                Inl e \<Rightarrow>
                  \<lparr>raised = Some e, returned = PyNone, db_after = db, data_after = ud1, out = []\<rparr>
              | Inr i \<Rightarrow>
                  (let user_rank = int i + 1;
                       usr = all_users ! i;
                       jokes_submitted_count = int (length (jokes_submitted db u));
                       average_score = get_average_score db u;
                       username_line = py ''*'' @ username usr @ py ''*'';
                       rank_line =
                         py ''rank: '' @ str_int user_rank @ py ''. ('' @ str_int (score usr)
                           @ py '' points)'';
                       jokes_submitted_line =
                         py ''jokes submitted: '' @ str_int jokes_submitted_count @ py '' (''
                           @ average_score @ py '' points/joke)'';
                       user_info =
                         username_line @ [10] @ rank_line @ [10] @ jokes_submitted_line
                   in \<lparr>raised = None, returned = PyNone, db_after = db, data_after = ud1,
                       out = [reply_markdown (Text user_info)]\<rparr>)))"

definition top10 :: "database \<Rightarrow> message \<Rightarrow> user_data \<Rightarrow> outcome" where
  "top10 db msg ud =
     (case private_get_user db msg ud of
        Inl UserDoesNotExist \<Rightarrow>
          \<lparr>raised = None, returned = PyNone, db_after = db, data_after = ud,
           out = display_new_user_keyboard\<rparr>
      | Inl e \<Rightarrow>
          \<lparr>raised = Some e, returned = PyNone, db_after = db, data_after = ud, out = []\<rparr>
      | Inr (u, ud1) \<Rightarrow>
          (let all_users = order_by score (users db);
               top_10_users = take 10 all_users;
               reply_message =
                 concat (map (\<lambda>(index, usr).
                     (let rank = int index + 1
                      in str_int rank @ py ''. '' @ username usr @ py '' - score: ''
                           @ str_int (score usr) @ [10]))
                   (enumerate 0 top_10_users))
           in \<lparr>raised = None, returned = PyNone, db_after = db, data_after = ud1,
               out = [reply_text (Text reply_message)]\<rparr>))"

section \<open>The specification's words\<close>

text \<open>The spec's username alphabet: the letters \<open>A-Z\<close> and \<open>a-z\<close>, the digits \<open>0-9\<close>,
  \<open>-\<close> and \<open>_\<close>, as code points.\<close>

definition spec_username_char :: "nat \<Rightarrow> bool" where
  "spec_username_char c \<longleftrightarrow>
     (65 \<le> c \<and> c \<le> 90) \<or> (97 \<le> c \<and> c \<le> 122) \<or> (48 \<le> c \<and> c \<le> 57)
       \<or> c = 45 \<or> c = 95"

text \<open>The spec's "unseen joke": neither authored by the user nor voted on by the user.\<close>

definition spec_unseen :: "database \<Rightarrow> int \<Rightarrow> Joke \<Rightarrow> bool" where
  "spec_unseen db u j \<longleftrightarrow>
     author j \<noteq> u \<and> \<not> list_ex (\<lambda>v. voter v = u \<and> voted_joke v = joke_id j) (votes db)"

text \<open>The integer a decimal text denotes: an optional leading \<open>-\<close> and then digits, most
  significant first.\<close>

definition spec_digits_value :: "pystr \<Rightarrow> nat" where
  "spec_digits_value s = foldl (\<lambda>a c. 10 * a + (c - 48)) 0 s"

definition spec_int_value :: "pystr \<Rightarrow> int" where
  "spec_int_value s =
     (case s of
        [] \<Rightarrow> 0
      | c # ds \<Rightarrow> if c = 45 then - int (spec_digits_value ds) else int (spec_digits_value s))"

text \<open>Adding jokes in sequence: \<open>private_add_joke\<close> on each (body, author) pair in turn,
  stopping at the first one that is refused.\<close>

fun add_jokes :: "database \<Rightarrow> (pystr \<times> int) list \<Rightarrow> error + database" where
  "add_jokes db [] = Inr db"
| "add_jokes db ((b, a) # rest) =
     (case private_add_joke db b a of
        Inl e \<Rightarrow> Inl e
      | Inr (r, db1) \<Rightarrow> add_jokes db1 rest)"

section \<open>Example data\<close>

definition empty_db :: database where
  "empty_db = \<lparr>users = [], jokes = [], votes = []\<rparr>"

definition empty_data :: user_data where
  "empty_data = \<lparr>current_user = None, last_joke = None, user_key = None\<rparr>"

definition alice :: User where
  "alice = \<lparr>user_id = 1, username = py ''alice'', score = 0\<rparr>"

definition bob :: User where
  "bob = \<lparr>user_id = 2, username = py ''bo12345'', score = 3\<rparr>"

definition chicken :: Joke where
  "chicken = \<lparr>joke_id = 0, body = py ''why did the chicken cross the road'',
              vote_count = 0, author = 1\<rparr>"

definition knock :: Joke where
  "knock = \<lparr>joke_id = 1, body = py ''knock knock who is there'', vote_count = - 1, author = 2\<rparr>"

definition db_users :: database where
  "db_users = \<lparr>users = [bob, alice], jokes = [], votes = []\<rparr>"

definition db_alice :: database where
  "db_alice = \<lparr>users = [alice], jokes = [], votes = []\<rparr>"

definition db_jokes :: database where
  "db_jokes = \<lparr>users = [alice, bob], jokes = [chicken, knock], votes = []\<rparr>"

definition db_voted :: database where
  "db_voted = \<lparr>users = [alice, bob], jokes = [chicken, knock],
               votes = [\<lparr>voter = 1, voted_joke = 1, positive = False\<rparr>]\<rparr>"

definition msg_from :: "int \<Rightarrow> string \<Rightarrow> message" where
  "msg_from c s = \<lparr>chat_id = c, text' = py s\<rparr>"

declare str_nat.simps [simp del]

section \<open>Usernames and registration\<close>

lemma py_append: "py (s @ t) = py s @ py t"
  by (simp add: py_def)

lemma set_py_lowercase: "set (py ''abcdefghijklmnopqrstuvwxyz'') = {97..<123}"
  unfolding py_def atLeastLessThan_upt by (simp del: set_upt)

lemma set_py_uppercase: "set (py ''ABCDEFGHIJKLMNOPQRSTUVWXYZ'') = {65..<91}"
  unfolding py_def atLeastLessThan_upt by (simp del: set_upt)

lemma set_py_digits: "set (py digits) = {48..<58}"
  unfolding py_def digits_def atLeastLessThan_upt by (simp del: set_upt)

lemma allowed_characters_intervals:
  "USERNAME_ALLOWED_CHARACTERS = {97..<123} \<union> {65..<91} \<union> {48..<58} \<union> {45, 95}"
proof -
  have l: "ascii_letters = ''abcdefghijklmnopqrstuvwxyz'' @ ''ABCDEFGHIJKLMNOPQRSTUVWXYZ''"
    by (simp add: ascii_letters_def)
  have a: "set (py ascii_letters) = {97..<123} \<union> {65..<91}"
    unfolding l by (simp only: py_append set_append set_py_lowercase set_py_uppercase)
  have o: "set (py ''-_'') = {45, 95}"
    by (simp add: py_def)
  show ?thesis
    unfolding USERNAME_ALLOWED_CHARACTERS_def
    by (simp only: py_append set_append a o set_py_digits Un_assoc)
qed

lemma allowed_characters_iff:
  "c \<in> USERNAME_ALLOWED_CHARACTERS \<longleftrightarrow> spec_username_char c"
  unfolding allowed_characters_intervals spec_username_char_def by auto

lemma allowed_subset_iff:
  "set name \<subseteq> USERNAME_ALLOWED_CHARACTERS \<longleftrightarrow> (\<forall>c\<in>set name. spec_username_char c)"
  using allowed_characters_iff by blast

text \<open>
  C2. For a username submitted by an identity that has no user row yet, \<open>private_add_user\<close>
  raises \<open>InvalidCharacters\<close> if some character is outside the spec's alphabet, else
  \<open>TooShort\<close> if the length is below 5, else \<open>TooLong\<close> if it is above 20, and otherwise
  appends a new user with score 0 to the users and returns it. Hence it succeeds exactly
  when the length is between 5 and 20 and every character is a letter, digit, \<open>-\<close> or \<open>_\<close>.
\<close>

theorem register_user_validation:
  assumes "find (\<lambda>u. user_id u = uid) (users db) = None"
  shows "private_add_user db uid name =
           (if \<not> (\<forall>c\<in>set name. spec_username_char c) then Inl InvalidCharacters
            else if length name < 5 then Inl TooShort
            else if 20 < length name then Inl TooLong
            else Inr (\<lparr>user_id = uid, username = name, score = 0\<rparr>,
                      db\<lparr>users := users db @ [\<lparr>user_id = uid, username = name, score = 0\<rparr>]\<rparr>))
         \<and> ((\<exists>r. private_add_user db uid name = Inr r) \<longleftrightarrow>
              5 \<le> length name \<and> length name \<le> 20 \<and> (\<forall>c\<in>set name. spec_username_char c))"
  using assms
  by (auto simp add: private_add_user_def allowed_subset_iff USERNAME_LENGTH_MIN_def
        USERNAME_LENGTH_MAX_def Let_def)

theorem register_user_validation_witness:
  "find (\<lambda>u. user_id u = 1) (users empty_db) = None
   \<and> private_add_user empty_db 1 (py ''alice'') = Inr (alice, db_alice)
   \<and> private_add_user empty_db 1 (py ''bo'') = Inl TooShort
   \<and> private_add_user empty_db 1 (py ''a b'') = Inl InvalidCharacters
   \<and> private_add_user empty_db 1 (py ''abcdefghijklmnopqrstu'') = Inl TooLong"
proof -
  have h: "find (\<lambda>u. user_id u = 1) (users empty_db) = None"
    by (simp add: empty_db_def)
  show ?thesis
    using h register_user_validation [OF h, of "py ''alice''"]
      register_user_validation [OF h, of "py ''bo''"]
      register_user_validation [OF h, of "py ''a b''"]
      register_user_validation [OF h, of "py ''abcdefghijklmnopqrstu''"]
    by (simp add: empty_db_def alice_def db_alice_def py_def spec_username_char_def)
qed

section \<open>Joke submission\<close>

lemma sorted_le_last:
  "sorted xs \<Longrightarrow> x \<in> set xs \<Longrightarrow> x \<le> last (xs :: int list)"
  by (induction xs) auto

lemma last_order_by:
  assumes "rows \<noteq> []"
  shows "f (last (order_by f rows)) = Max (f ` set rows)"
proof -
  let ?s = "sort_key f rows"
  have ne: "?s \<noteq> []" using assms by (metis length_sort list.size(3) length_0_conv)
  have srt: "sorted (map f ?s)" by simp
  have "last (map f ?s) = Max (set (map f ?s))"
    using srt ne
    by (metis Max_eqI List.finite_set last_in_set sorted_le_last map_is_Nil_conv)
  then show ?thesis using ne by (simp add: order_by_def last_map)
qed

lemma private_add_joke_eq:
  "private_add_joke db b a =
     (if length b < 10 then Inl TooShort
      else if 1000 < length b then Inl TooLong
      else Inr (None, db\<lparr>jokes := jokes db @
                  [\<lparr>joke_id = (if jokes db = [] then 0 else Max (joke_id ` set (jokes db)) + 1),
                    body = b, vote_count = 0, author = a\<rparr>]\<rparr>))"
proof (cases "jokes db = []")
  case True
  then show ?thesis
    by (simp add: private_add_joke_def JOKE_LENGTH_MIN_def JOKE_LENGTH_MAX_def order_by_def)
next
  case False
  then have "order_by joke_id (jokes db) \<noteq> []"
    by (metis order_by_def length_sort length_0_conv)
  with False show ?thesis
    by (simp add: private_add_joke_def JOKE_LENGTH_MIN_def JOKE_LENGTH_MAX_def Let_def last_order_by)
qed

lemma add_jokes_ids:
  assumes "map joke_id (jokes db) = map int [0..<n]"
    and "\<forall>(b, a)\<in>set subs. 10 \<le> length b \<and> length b \<le> 1000"
  shows "\<exists>db'. add_jokes db subs = Inr db' \<and> map joke_id (jokes db') = map int [0..<n + length subs]"
  using assms
proof (induction subs arbitrary: db n)
  case Nil
  then show ?case by simp
next
  case (Cons p subs)
  obtain b a where p: "p = (b, a)" by (cases p)
  have len: "10 \<le> length b" "length b \<le> 1000" using Cons.prems(2) p by auto
  let ?id = "if jokes db = [] then 0 else Max (joke_id ` set (jokes db)) + 1"
  let ?db1 = "db\<lparr>jokes := jokes db @ [\<lparr>joke_id = ?id, body = b, vote_count = 0, author = a\<rparr>]\<rparr>"
  have step: "private_add_joke db b a = Inr (None, ?db1)"
    using len by (simp add: private_add_joke_eq)
  have ln: "length (jokes db) = n" using Cons.prems(1) by (metis length_map length_upt diff_zero)
  have idn: "?id = int n"
  proof (cases "jokes db = []")
    case True
    then show ?thesis using ln by simp
  next
    case False
    then have n0: "0 < n" using ln by auto
    have "joke_id ` set (jokes db) = int ` {0..<n}"
      using Cons.prems(1) by (metis set_map set_upt)
    moreover have "Max (int ` {0..<n}) = int (n - 1)"
    proof (rule Max_eqI)
      show "int (n - 1) \<in> int ` {0..<n}" using n0 by (intro imageI) simp
    qed auto
    ultimately show ?thesis using False n0 by simp
  qed
  have "map joke_id (jokes ?db1) = map int [0..<Suc n]"
    using Cons.prems(1) idn by simp
  moreover have "\<forall>(b, a)\<in>set subs. 10 \<le> length b \<and> length b \<le> 1000"
    using Cons.prems(2) by simp
  ultimately obtain db' where "add_jokes ?db1 subs = Inr db'"
    "map joke_id (jokes db') = map int [0..<Suc n + length subs]"
    using Cons.IH by blast
  then show ?case using step p by simp
qed

text \<open>
  C3, as stated, has \<open>add_joke\<close> return the new joke. \<open>private_add_joke\<close> returns \<open>None\<close>:
  when the registered user alice adds the 34-character chicken joke to a repository
  without jokes, the result carries no joke, although the joke, with id 0 and
  \<open>vote_count\<close> 0, is in the repository.
\<close>

theorem add_joke_returns_none_counterexample:
  "1 \<in> user_id ` set (users db_alice)
   \<and> private_add_joke db_alice (py ''why did the chicken cross the road'') 1
        = Inr (None, \<lparr>users = [alice], jokes = [chicken], votes = []\<rparr>)"
  by (simp add: private_add_joke_def db_alice_def alice_def chicken_def py_def order_by_def
        JOKE_LENGTH_MIN_def JOKE_LENGTH_MAX_def)

text \<open>
  C3, amended. For every body and registered author, \<open>private_add_joke\<close> raises \<open>TooShort\<close>
  if the body has fewer than 10 characters, \<open>TooLong\<close> if it has more than 1000, and
  otherwise appends a joke with \<open>vote_count\<close> 0 and id one more than the largest existing id
  (0 when there is no joke) and returns \<open>None\<close>. Adding valid jokes of registered authors in
  sequence to a repository without jokes always succeeds and gives the ids 0, 1, 2, ...
  in order.
\<close>

theorem add_joke_validation_and_ids:
  assumes "a \<in> user_id ` set (users db)"
  shows "private_add_joke db b a =
     (if length b < 10 then Inl TooShort
      else if 1000 < length b then Inl TooLong
      else Inr (None, db\<lparr>jokes := jokes db @
                  [\<lparr>joke_id = (if jokes db = [] then 0 else Max (joke_id ` set (jokes db)) + 1),
                    body = b, vote_count = 0, author = a\<rparr>]\<rparr>))
   \<and> ((\<exists>r. private_add_joke db b a = Inr r) \<longleftrightarrow> 10 \<le> length b \<and> length b \<le> 1000)
   \<and> (jokes db = []
        \<and> (\<forall>(b, a)\<in>set subs.
              a \<in> user_id ` set (users db) \<and> 10 \<le> length b \<and> length b \<le> 1000) \<longrightarrow>
        (\<exists>db'. add_jokes db subs = Inr db'
           \<and> map joke_id (jokes db') = map int [0..<length subs]))"
proof (intro conjI impI)
  show "private_add_joke db b a =
     (if length b < 10 then Inl TooShort
      else if 1000 < length b then Inl TooLong
      else Inr (None, db\<lparr>jokes := jokes db @
                  [\<lparr>joke_id = (if jokes db = [] then 0 else Max (joke_id ` set (jokes db)) + 1),
                    body = b, vote_count = 0, author = a\<rparr>]\<rparr>))"
    by (rule private_add_joke_eq)
  show "(\<exists>r. private_add_joke db b a = Inr r) \<longleftrightarrow> 10 \<le> length b \<and> length b \<le> 1000"
    by (auto simp add: private_add_joke_eq)
next
  assume h: "jokes db = []
        \<and> (\<forall>(b, a)\<in>set subs.
              a \<in> user_id ` set (users db) \<and> 10 \<le> length b \<and> length b \<le> 1000)"
  then have z: "map joke_id (jokes db) = map int [0..<0]" by simp
  have v: "\<forall>(b, a)\<in>set subs. 10 \<le> length b \<and> length b \<le> 1000"
    using h by auto
  from add_jokes_ids [OF z v]
  show "\<exists>db'. add_jokes db subs = Inr db' \<and> map joke_id (jokes db') = map int [0..<length subs]"
    by simp
qed

theorem add_joke_validation_and_ids_witness:
  "1 \<in> user_id ` set (users db_users) \<and> 2 \<in> user_id ` set (users db_users)
   \<and> jokes db_users = []
   \<and> 10 \<le> length (body chicken) \<and> length (body chicken) \<le> 1000
   \<and> 10 \<le> length (body knock) \<and> length (body knock) \<le> 1000
   \<and> (\<exists>db'. add_jokes db_users [(body chicken, 1), (body knock, 2)] = Inr db'
         \<and> map joke_id (jokes db') = [0, 1])
   \<and> private_add_joke db_users (py ''too short'') 1 = Inl TooShort"
proof -
  have r: "1 \<in> user_id ` set (users db_users)" "2 \<in> user_id ` set (users db_users)"
    by (simp_all add: db_users_def alice_def bob_def)
  have h: "jokes db_users = []
     \<and> (\<forall>(b, a)\<in>set [(body chicken, 1::int), (body knock, 2)].
           a \<in> user_id ` set (users db_users) \<and> 10 \<le> length b \<and> length b \<le> 1000)"
    using r by (simp add: db_users_def chicken_def knock_def py_def)
  have u: "map int [0..<length [(body chicken, 1::int), (body knock, 2)]] = [0, 1]"
    by (simp add: upt_rec)
  have l: "10 \<le> length (body chicken) \<and> length (body chicken) \<le> 1000
     \<and> 10 \<le> length (body knock) \<and> length (body knock) \<le> 1000"
    by (simp add: chicken_def knock_def py_def)
  note t = add_joke_validation_and_ids [OF r(1), of "py ''too short''"
      "[(body chicken, 1), (body knock, 2)]"]
  have s: "private_add_joke db_users (py ''too short'') 1 = Inl TooShort"
    using t [THEN conjunct1] by (simp add: py_def)
  have q: "\<exists>db'. add_jokes db_users [(body chicken, 1), (body knock, 2)] = Inr db'
         \<and> map joke_id (jokes db') = [0, 1]"
    using t [THEN conjunct2, THEN conjunct2, rule_format, OF h] u by simp
  show ?thesis
    using r h l s q by simp
qed

section \<open>Resolving the user\<close>

lemma private_get_user_Inr:
  assumes "private_get_user db msg ud = Inr (u, ud1)"
  shows "ud1 = ud\<lparr>current_user := Some u\<rparr>"
  using assms
  by (auto simp add: private_get_user_def split: option.splits)

lemma private_get_user_cached:
  "current_user ud = Some u \<Longrightarrow> private_get_user db msg ud = Inr (u, ud)"
  by (simp add: private_get_user_def)

section \<open>The conversation flows\<close>

text \<open>
  C8. In the registration flow, a username with a character outside the alphabet, a
  username shorter than 5 and a username longer than 20 are each answered with their own
  response and nothing else; the database and the user's dictionary are unchanged. In the
  submission flow, for a registered user, a body shorter than 10 or longer than 1000 is
  answered with its own response and the database is unchanged. In every one of these
  cases the handler returns \<open>None\<close>, which leaves the conversation state as it was.
\<close>

theorem validation_failure_keeps_state:
  "(\<not> (\<forall>c\<in>set (text' msg). spec_username_char c) \<longrightarrow>
      new_user_received_username db msg ud =
        \<lparr>raised = None, returned = PyNone, db_after = db, data_after = ud,
         out = [reply_text (Response ''username_invalid_characters'')]\<rparr>)
   \<and> ((\<forall>c\<in>set (text' msg). spec_username_char c) \<and> length (text' msg) < 5 \<longrightarrow>
      new_user_received_username db msg ud =
        \<lparr>raised = None, returned = PyNone, db_after = db, data_after = ud,
         out = [reply_text (Response ''username_too_short'')]\<rparr>)
   \<and> ((\<forall>c\<in>set (text' msg). spec_username_char c) \<and> 20 < length (text' msg) \<longrightarrow>
      new_user_received_username db msg ud =
        \<lparr>raised = None, returned = PyNone, db_after = db, data_after = ud,
         out = [reply_text (Response ''username_too_long'')]\<rparr>)
   \<and> (private_get_user db msg ud = Inr (u, ud1) \<and> length (text' msg) < 10 \<longrightarrow>
      new_joke_received db msg ud =
        \<lparr>raised = None, returned = PyNone, db_after = db, data_after = ud1,
         out = [reply_text (Response ''joke_too_short'')]\<rparr>)
   \<and> (private_get_user db msg ud = Inr (u, ud1) \<and> 1000 < length (text' msg) \<longrightarrow>
      new_joke_received db msg ud =
        \<lparr>raised = None, returned = PyNone, db_after = db, data_after = ud1,
         out = [reply_text (Response ''joke_too_long'')]\<rparr>)
   \<and> update_state PyNone st = st"
  by (simp add: new_user_received_username_def new_joke_received_def private_add_user_def
        private_add_joke_def allowed_subset_iff USERNAME_LENGTH_MIN_def USERNAME_LENGTH_MAX_def
        JOKE_LENGTH_MIN_def JOKE_LENGTH_MAX_def update_state_def)

theorem validation_failure_keeps_state_witness:
  "new_user_received_username db_alice (msg_from 2 ''a b'') empty_data =
      \<lparr>raised = None, returned = PyNone, db_after = db_alice, data_after = empty_data,
       out = [reply_text (Response ''username_invalid_characters'')]\<rparr>
   \<and> new_user_received_username db_alice (msg_from 2 ''bo'') empty_data =
      \<lparr>raised = None, returned = PyNone, db_after = db_alice, data_after = empty_data,
       out = [reply_text (Response ''username_too_short'')]\<rparr>
   \<and> new_user_received_username db_alice (msg_from 2 ''abcdefghijklmnopqrstu'') empty_data =
      \<lparr>raised = None, returned = PyNone, db_after = db_alice, data_after = empty_data,
       out = [reply_text (Response ''username_too_long'')]\<rparr>
   \<and> private_get_user db_alice (msg_from 1 ''too short'') empty_data
        = Inr (1, empty_data\<lparr>current_user := Some 1\<rparr>)
   \<and> new_joke_received db_alice (msg_from 1 ''too short'') empty_data =
      \<lparr>raised = None, returned = PyNone, db_after = db_alice,
       data_after = empty_data\<lparr>current_user := Some 1\<rparr>,
       out = [reply_text (Response ''joke_too_short'')]\<rparr>
   \<and> update_state PyNone (Some USERNAME_RECEIVED) = Some USERNAME_RECEIVED"
proof -
  have g: "private_get_user db_alice (msg_from 1 ''too short'') empty_data
        = Inr (1, empty_data\<lparr>current_user := Some 1\<rparr>)"
    by (simp add: private_get_user_def db_alice_def alice_def msg_from_def empty_data_def)
  show ?thesis
    using g
      validation_failure_keeps_state [of "msg_from 2 ''a b''" db_alice empty_data 1 empty_data
        "Some USERNAME_RECEIVED"]
      validation_failure_keeps_state [of "msg_from 2 ''bo''" db_alice empty_data 1 empty_data
        "Some USERNAME_RECEIVED"]
      validation_failure_keeps_state [of "msg_from 2 ''abcdefghijklmnopqrstu''" db_alice
        empty_data 1 empty_data "Some USERNAME_RECEIVED"]
      validation_failure_keeps_state [of "msg_from 1 ''too short''" db_alice empty_data 1
        "empty_data\<lparr>current_user := Some 1\<rparr>" "Some USERNAME_RECEIVED"]
    by (simp add: msg_from_def py_def spec_username_char_def)
qed

text \<open>
  C4 fails on the code. A successful registration returns \<open>None\<close>, not
  \<open>ConversationHandler.END\<close>, so the conversation stays in \<open>USERNAME_RECEIVED\<close>, whereas
  \<open>cancel\<close> returns \<open>END\<close> and closes it. The next text the user sends is handed to
  \<open>new_user_received_username\<close> again, fails its assertion and is answered with nothing.
  The same holds for a successful joke submission and \<open>JOKE_RECEIVED\<close>: the next text is
  taken as another joke.
\<close>

theorem success_leaves_conversation_open:
  "new_user_received_username empty_db (msg_from 1 ''alice'') empty_data =
      \<lparr>raised = None, returned = PyNone, db_after = db_alice,
       data_after = empty_data\<lparr>user_key := Some 1\<rparr>,
       out = [reply_text (Response ''user_register_success'')] @ display_menu_keyboard\<rparr>
   \<and> update_state PyNone (Some USERNAME_RECEIVED) = Some USERNAME_RECEIVED
   \<and> update_state (returned (cancel db_alice (msg_from 1 ''/cancel'') empty_data))
        (Some USERNAME_RECEIVED) = None
   \<and> new_user_received_username db_alice (msg_from 1 ''hello'')
        (empty_data\<lparr>user_key := Some 1\<rparr>) =
      \<lparr>raised = None, returned = PyNone, db_after = db_alice,
       data_after = empty_data\<lparr>user_key := Some 1\<rparr>, out = []\<rparr>
   \<and> returned (new_joke_received db_alice
        (msg_from 1 ''why did the chicken cross the road'') empty_data) = PyNone
   \<and> jokes (db_after (new_joke_received db_alice
        (msg_from 1 ''why did the chicken cross the road'') empty_data)) = [chicken]
   \<and> update_state PyNone (Some JOKE_RECEIVED) = Some JOKE_RECEIVED
   \<and> map body (jokes (db_after (new_joke_received
        \<lparr>users = [alice], jokes = [chicken], votes = []\<rparr>
        (msg_from 1 ''thanks, that is all'') (empty_data\<lparr>current_user := Some 1\<rparr>))))
       = [body chicken, py ''thanks, that is all'']"
  by (simp add: new_user_received_username_def new_joke_received_def private_add_user_def
        private_add_joke_def private_get_user_def allowed_subset_iff USERNAME_LENGTH_MIN_def
        USERNAME_LENGTH_MAX_def JOKE_LENGTH_MIN_def JOKE_LENGTH_MAX_def update_state_def
        cancel_def END_def msg_from_def py_def spec_username_char_def empty_db_def
        empty_data_def db_alice_def alice_def chicken_def order_by_def
        allowed_characters_iff Let_def)

section \<open>Random joke on an empty repository\<close>

text \<open>
  C9, as stated, has \<open>/random_joke\<close> on an empty repository mutate no state. For a
  registered user who is not yet cached in the session, \<open>private_get_user\<close> stores the user
  under \<open>'current_user'\<close>: the dictionary after the call differs from the one before.
\<close>

theorem random_joke_empty_counterexample:
  "jokes db_alice = []
   \<and> display_random_joke id db_alice (msg_from 1 ''/random_joke'') empty_data =
      \<lparr>raised = None, returned = PyNone, db_after = db_alice,
       data_after = \<lparr>current_user = Some 1, last_joke = None, user_key = None\<rparr>,
       out = [reply_text (Response ''no_new_jokes'')]\<rparr>
   \<and> data_after (display_random_joke id db_alice (msg_from 1 ''/random_joke'') empty_data)
        \<noteq> empty_data"
  by (simp add: display_random_joke_def private_get_user_def db_alice_def alice_def
        msg_from_def empty_data_def)

text \<open>
  C9, amended. When the repository has no joke, \<open>/random_joke\<close> from a registered user
  raises nothing, sends the \<open>no_new_jokes\<close> response and nothing else, and leaves the
  database and the last shown joke unchanged; the only change of state is that the user
  is now cached under \<open>'current_user'\<close>.
\<close>

theorem random_joke_empty_repository:
  assumes "private_get_user db msg ud = Inr (u, ud1)" and "jokes db = []"
  shows "display_random_joke shuffle db msg ud =
           \<lparr>raised = None, returned = PyNone, db_after = db,
            data_after = ud\<lparr>current_user := Some u\<rparr>,
            out = [reply_text (Response ''no_new_jokes'')]\<rparr>"
  using assms private_get_user_Inr [OF assms(1)]
  by (simp add: display_random_joke_def)

theorem random_joke_empty_repository_witness:
  "private_get_user db_alice (msg_from 1 ''/random_joke'') empty_data
      = Inr (1, empty_data\<lparr>current_user := Some 1\<rparr>)
   \<and> jokes db_alice = []
   \<and> display_random_joke rev db_alice (msg_from 1 ''/random_joke'') empty_data =
        \<lparr>raised = None, returned = PyNone, db_after = db_alice,
         data_after = empty_data\<lparr>current_user := Some 1\<rparr>,
         out = [reply_text (Response ''no_new_jokes'')]\<rparr>"
proof -
  have g: "private_get_user db_alice (msg_from 1 ''/random_joke'') empty_data
      = Inr (1, empty_data\<lparr>current_user := Some 1\<rparr>)"
    by (simp add: private_get_user_def db_alice_def alice_def msg_from_def empty_data_def)
  have j: "jokes db_alice = []"
    by (simp add: db_alice_def)
  show ?thesis
    using g j random_joke_empty_repository [OF g j, of rev] by simp
qed

section \<open>The vote handler\<close>

lemma hah_in_hah: "py_in (py ''hah'') (py ''/hah'')"
  by (simp add: py_def)

lemma hah_not_in_nah: "\<not> py_in (py ''hah'') (py ''/nah'')"
  by (simp add: py_def)

lemma vote_for_joke_nothing_to_vote:
  assumes "private_get_user db msg ud = Inr (u, ud1)" and "last_joke ud = None"
  shows "vote_for_joke vote db msg ud =
           \<lparr>raised = None, returned = PyNone, db_after = db,
            data_after = ud\<lparr>current_user := Some u\<rparr>,
            out = [reply_text (Response ''joke_no_current'')]\<rparr>"
  using assms private_get_user_Inr [OF assms(1)]
  by (simp add: vote_for_joke_def)

lemma vote_for_joke_votes:
  assumes "private_get_user db msg ud = Inr (u, ud1)" and "last_joke ud = Some j"
  shows "vote_for_joke vote db msg ud =
           \<lparr>raised = None, returned = PyNone,
            db_after = snd (vote db u j (py_in (py ''hah'') (text' msg))),
            data_after = ud\<lparr>current_user := Some u, last_joke := None\<rparr>,
            out = (if fst (vote db u j (py_in (py ''hah'') (text' msg))) = Some InvalidVote
                   then [log_error InvalidVote] else [])
                  @ [send_message (Response ''after_vote'') ReplyKeyboardRemove]\<rparr>"
proof -
  have ud1: "ud1 = ud\<lparr>current_user := Some u\<rparr>"
    by (rule private_get_user_Inr [OF assms(1)])
  obtain exc db1 where v: "vote db u j (py_in (py ''hah'') (text' msg)) = (exc, db1)"
    by (cases "vote db u j (py_in (py ''hah'') (text' msg))")
  show ?thesis
    using assms ud1 v
    by (cases exc; cases "the exc")
      (simp_all add: vote_for_joke_def remove_keyboard_def)
qed

text \<open>
  C1, as stated, has a vote without a last shown joke change nothing. For a registered
  user who is not yet cached in the session the handler stores the user under
  \<open>'current_user'\<close> before it answers \<open>joke_no_current\<close>.
\<close>

theorem vote_changes_nothing_counterexample:
  "last_joke empty_data = None
   \<and> vote_for_joke User_vote_for_joke db_alice (msg_from 1 ''/hah'') empty_data =
      \<lparr>raised = None, returned = PyNone, db_after = db_alice,
       data_after = \<lparr>current_user = Some 1, last_joke = None, user_key = None\<rparr>,
       out = [reply_text (Response ''joke_no_current'')]\<rparr>
   \<and> data_after (vote_for_joke User_vote_for_joke db_alice (msg_from 1 ''/hah'') empty_data)
        \<noteq> empty_data"
  by (simp add: vote_for_joke_def private_get_user_def db_alice_def alice_def
        msg_from_def empty_data_def)

text \<open>
  C1, amended. For a \<open>/hah\<close> or \<open>/nah\<close> of a registered user, whatever \<open>User.vote_for_joke\<close>
  does: without a last shown joke the handler answers \<open>joke_no_current\<close> and changes
  nothing but the cached \<open>'current_user'\<close>. With a last shown joke it applies the vote to
  the user and that joke, positive for \<open>/hah\<close> and negative for \<open>/nah\<close>, keeps the database
  the vote left, deletes the last shown joke whether or not the vote raised, logs an
  \<open>InvalidVote\<close> without telling the user, and sends the \<open>after_vote\<close> response with the
  keyboard removed. A further \<open>/hah\<close> or \<open>/nah\<close> on the resulting session, on any database,
  is answered with \<open>joke_no_current\<close>.
\<close>

theorem vote_for_joke_handler:
  assumes "private_get_user db msg ud = Inr (u, ud1)"
    and "text' msg = py ''/hah'' \<or> text' msg = py ''/nah''"
  shows "(last_joke ud = None \<longrightarrow>
            vote_for_joke vote db msg ud =
              \<lparr>raised = None, returned = PyNone, db_after = db,
               data_after = ud\<lparr>current_user := Some u\<rparr>,
               out = [reply_text (Response ''joke_no_current'')]\<rparr>)
         \<and> (last_joke ud = Some j \<longrightarrow>
            vote_for_joke vote db msg ud =
              \<lparr>raised = None, returned = PyNone,
               db_after = snd (vote db u j (text' msg = py ''/hah'')),
               data_after = ud\<lparr>current_user := Some u, last_joke := None\<rparr>,
               out = (if fst (vote db u j (text' msg = py ''/hah'')) = Some InvalidVote
                      then [log_error InvalidVote] else [])
                     @ [send_message (Response ''after_vote'') ReplyKeyboardRemove]\<rparr>
            \<and> out (vote_for_joke vote db_next msg_next
                     (data_after (vote_for_joke vote db msg ud)))
                = [reply_text (Response ''joke_no_current'')])"
proof (intro conjI impI)
  assume "last_joke ud = None"
  then show "vote_for_joke vote db msg ud =
              \<lparr>raised = None, returned = PyNone, db_after = db,
               data_after = ud\<lparr>current_user := Some u\<rparr>,
               out = [reply_text (Response ''joke_no_current'')]\<rparr>"
    by (rule vote_for_joke_nothing_to_vote [OF assms(1)])
next
  assume lj: "last_joke ud = Some j"
  have pol: "py_in (py ''hah'') (text' msg) = (text' msg = py ''/hah'')"
    using assms(2) hah_in_hah hah_not_in_nah by (auto simp add: py_def)
  show first: "vote_for_joke vote db msg ud =
              \<lparr>raised = None, returned = PyNone,
               db_after = snd (vote db u j (text' msg = py ''/hah'')),
               data_after = ud\<lparr>current_user := Some u, last_joke := None\<rparr>,
               out = (if fst (vote db u j (text' msg = py ''/hah'')) = Some InvalidVote
                      then [log_error InvalidVote] else [])
                     @ [send_message (Response ''after_vote'') ReplyKeyboardRemove]\<rparr>"
    using vote_for_joke_votes [OF assms(1) lj, of vote] pol by simp
  let ?ud2 = "ud\<lparr>current_user := Some u, last_joke := None\<rparr>"
  have g2: "private_get_user db_next msg_next ?ud2 = Inr (u, ?ud2)"
    by (simp add: private_get_user_cached)
  have "out (vote_for_joke vote db_next msg_next ?ud2) = [reply_text (Response ''joke_no_current'')]"
    using vote_for_joke_nothing_to_vote [OF g2, of vote] by simp
  then show "out (vote_for_joke vote db_next msg_next (data_after (vote_for_joke vote db msg ud)))
                = [reply_text (Response ''joke_no_current'')]"
    using first by simp
qed

theorem vote_for_joke_handler_witness:
  "private_get_user db_jokes (msg_from 1 ''/hah'') (empty_data\<lparr>last_joke := Some 1\<rparr>)
      = Inr (1, empty_data\<lparr>last_joke := Some 1, current_user := Some 1\<rparr>)
   \<and> text' (msg_from 1 ''/hah'') = py ''/hah''
   \<and> last_joke (empty_data\<lparr>last_joke := Some 1\<rparr>) = Some 1
   \<and> vote_for_joke User_vote_for_joke db_jokes (msg_from 1 ''/hah'')
        (empty_data\<lparr>last_joke := Some 1\<rparr>) =
      \<lparr>raised = None, returned = PyNone,
       db_after = \<lparr>users = [alice, bob], jokes = [chicken, knock\<lparr>vote_count := 0\<rparr>],
                   votes = [\<lparr>voter = 1, voted_joke = 1, positive = True\<rparr>]\<rparr>,
       data_after = \<lparr>current_user = Some 1, last_joke = None, user_key = None\<rparr>,
       out = [send_message (Response ''after_vote'') ReplyKeyboardRemove]\<rparr>
   \<and> out (vote_for_joke User_vote_for_joke db_voted (msg_from 1 ''/hah'')
        (data_after (vote_for_joke User_vote_for_joke db_jokes (msg_from 1 ''/hah'')
           (empty_data\<lparr>last_joke := Some 1\<rparr>))))
      = [reply_text (Response ''joke_no_current'')]
   \<and> private_get_user db_jokes (msg_from 1 ''/nah'') (empty_data\<lparr>last_joke := Some 0\<rparr>)
      = Inr (1, empty_data\<lparr>last_joke := Some 0, current_user := Some 1\<rparr>)
   \<and> vote_for_joke User_vote_for_joke db_jokes (msg_from 1 ''/nah'')
        (empty_data\<lparr>last_joke := Some 0\<rparr>) =
      \<lparr>raised = None, returned = PyNone, db_after = db_jokes,
       data_after = \<lparr>current_user = Some 1, last_joke = None, user_key = None\<rparr>,
       out = [log_error InvalidVote,
              send_message (Response ''after_vote'') ReplyKeyboardRemove]\<rparr>"
proof -
  have g1: "private_get_user db_jokes (msg_from 1 ''/hah'') (empty_data\<lparr>last_joke := Some 1\<rparr>)
      = Inr (1, empty_data\<lparr>last_joke := Some 1, current_user := Some 1\<rparr>)"
    by (simp add: private_get_user_def db_jokes_def alice_def bob_def msg_from_def
          empty_data_def)
  have g2: "private_get_user db_jokes (msg_from 1 ''/nah'') (empty_data\<lparr>last_joke := Some 0\<rparr>)
      = Inr (1, empty_data\<lparr>last_joke := Some 0, current_user := Some 1\<rparr>)"
    by (simp add: private_get_user_def db_jokes_def alice_def bob_def msg_from_def
          empty_data_def)
  have t1: "text' (msg_from 1 ''/hah'') = py ''/hah'' \<or> text' (msg_from 1 ''/hah'') = py ''/nah''"
    by (simp add: msg_from_def)
  have t2: "text' (msg_from 1 ''/nah'') = py ''/hah'' \<or> text' (msg_from 1 ''/nah'') = py ''/nah''"
    by (simp add: msg_from_def)
  have v1: "User_vote_for_joke db_jokes 1 1 True =
      (None, \<lparr>users = [alice, bob], jokes = [chicken, knock\<lparr>vote_count := 0\<rparr>],
              votes = [\<lparr>voter = 1, voted_joke = 1, positive = True\<rparr>]\<rparr>)"
    by (simp add: User_vote_for_joke_def db_jokes_def chicken_def knock_def)
  have v2: "User_vote_for_joke db_jokes 1 0 False = (Some InvalidVote, db_jokes)"
    by (simp add: User_vote_for_joke_def db_jokes_def chicken_def knock_def)
  have p: "py ''/nah'' \<noteq> py ''/hah''"
    by (simp add: py_def)
  show ?thesis
    using g1 g2 v1 v2 p
      vote_for_joke_handler [OF g1 t1, where j = 1 and vote = User_vote_for_joke
        and db_next = db_voted and msg_next = "msg_from 1 ''/hah''"]
      vote_for_joke_handler [OF g2 t2, where j = 0 and vote = User_vote_for_joke
        and db_next = db_voted and msg_next = "msg_from 1 ''/hah''"]
    by (auto simp add: msg_from_def empty_data_def)
qed

section \<open>Unseen jokes\<close>

lemma first_unseen_find:
  assumes "set js \<subseteq> set (jokes db)"
  shows "first_unseen db u js = find (spec_unseen db u) js"
  using assms
  by (induction js)
    (auto simp add: jokes_voted_for_def jokes_submitted_def spec_unseen_def Let_def)

lemma first_unseen_Some:
  assumes "first_unseen db u js = Some j"
  shows "j \<in> set js \<and> j \<notin> set (jokes_voted_for db u) \<and> j \<notin> set (jokes_submitted db u)"
  using assms
  by (induction js) (auto simp add: Let_def split: if_splits)

lemma seen_iff:
  assumes "j \<in> set (jokes db)"
  shows "j \<in> set (jokes_voted_for db u) \<or> j \<in> set (jokes_submitted db u) \<longleftrightarrow> \<not> spec_unseen db u j"
  using assms by (auto simp add: jokes_voted_for_def jokes_submitted_def spec_unseen_def)

text \<open>
  Additions and votes feed the two relations the filter reads: a joke added through
  \<open>private_add_joke\<close> is among its author's \<open>jokes_submitted\<close>, and a joke voted on
  through \<open>User_vote_for_joke\<close> is among the voter's \<open>jokes_voted_for\<close>.
\<close>

lemma added_joke_is_submitted:
  assumes "private_add_joke db b a = Inr (r, db')"
  shows "jokes db' \<noteq> [] \<and> last (jokes db') \<in> set (jokes_submitted db' a)
           \<and> body (last (jokes db')) = b"
  using assms
  by (auto simp add: private_add_joke_def jokes_submitted_def Let_def split: if_splits)

lemma voted_joke_is_voted_for:
  assumes "User_vote_for_joke db u j pos = (None, db')"
    and "x \<in> set (jokes db')" and "joke_id x = j"
  shows "x \<in> set (jokes_voted_for db' u)"
  using assms
  by (auto simp add: User_vote_for_joke_def jokes_voted_for_def split: if_splits)

lemma display_random_joke_shown:
  assumes g: "private_get_user db msg ud = Inr (u, ud1)"
    and shown: "reply_text (Text b) \<in> set (out (display_random_joke shuffle db msg ud))"
  shows "\<exists>j. first_unseen db u (shuffle (jokes db)) = Some j \<and> b = body j
            \<and> last_joke (data_after (display_random_joke shuffle db msg ud)) = Some (joke_id j)"
proof (cases "first_unseen db u (shuffle (jokes db))")
  case None
  with g shown show ?thesis
    by (auto simp add: display_random_joke_def Let_def split: if_splits)
next
  case (Some j)
  with g shown show ?thesis
    by (auto simp add: display_random_joke_def display_vote_keyboard_def Let_def split: if_splits)
qed

text \<open>
  C5. Whatever the database holds (so after any sequence of joke additions and votes) and
  whatever order the shuffle produces, a joke that \<open>/random_joke\<close> displays to a registered
  user is a joke of the repository that the user did not author and has not voted on: it
  is in neither \<open>jokes_submitted\<close> nor \<open>jokes_voted_for\<close> of the user. It is also the joke
  remembered as the last shown joke.
\<close>

theorem random_joke_is_unseen:
  assumes "private_get_user db msg ud = Inr (u, ud1)"
    and "mset (shuffle (jokes db)) = mset (jokes db)"
    and "reply_text (Text b) \<in> set (out (display_random_joke shuffle db msg ud))"
  shows "\<exists>j. j \<in> set (jokes db) \<and> b = body j
           \<and> last_joke (data_after (display_random_joke shuffle db msg ud)) = Some (joke_id j)
           \<and> author j \<noteq> u
           \<and> \<not> list_ex (\<lambda>v. voter v = u \<and> voted_joke v = joke_id j) (votes db)
           \<and> j \<notin> set (jokes_submitted db u) \<and> j \<notin> set (jokes_voted_for db u)"
proof -
  obtain j where j: "first_unseen db u (shuffle (jokes db)) = Some j" "b = body j"
    "last_joke (data_after (display_random_joke shuffle db msg ud)) = Some (joke_id j)"
    using display_random_joke_shown [OF assms(1) assms(3)] by blast
  have s: "set (shuffle (jokes db)) = set (jokes db)"
    using assms(2) by (rule mset_eq_setD)
  have u: "j \<in> set (jokes db)" "j \<notin> set (jokes_voted_for db u)" "j \<notin> set (jokes_submitted db u)"
    using first_unseen_Some [OF j(1)] s by auto
  then have "spec_unseen db u j"
    using seen_iff [OF u(1), of u] by blast
  then show ?thesis
    using j u by (auto simp add: spec_unseen_def)
qed

theorem random_joke_is_unseen_witness:
  "private_get_user db_voted (msg_from 2 ''/random_joke'') empty_data
      = Inr (2, empty_data\<lparr>current_user := Some 2\<rparr>)
   \<and> mset (rev (jokes db_voted)) = mset (jokes db_voted)
   \<and> reply_text (Text (body chicken))
        \<in> set (out (display_random_joke rev db_voted (msg_from 2 ''/random_joke'') empty_data))
   \<and> (\<exists>j. j \<in> set (jokes db_voted) \<and> body chicken = body j
        \<and> last_joke (data_after
             (display_random_joke rev db_voted (msg_from 2 ''/random_joke'') empty_data))
            = Some (joke_id j)
        \<and> author j \<noteq> 2
        \<and> \<not> list_ex (\<lambda>v. voter v = 2 \<and> voted_joke v = joke_id j) (votes db_voted)
        \<and> j \<notin> set (jokes_submitted db_voted 2) \<and> j \<notin> set (jokes_voted_for db_voted 2))"
proof -
  have g: "private_get_user db_voted (msg_from 2 ''/random_joke'') empty_data
      = Inr (2, empty_data\<lparr>current_user := Some 2\<rparr>)"
    by (simp add: private_get_user_def db_voted_def alice_def bob_def msg_from_def
          empty_data_def)
  have m: "mset (rev (jokes db_voted)) = mset (jokes db_voted)"
    by simp
  have s: "reply_text (Text (body chicken))
        \<in> set (out (display_random_joke rev db_voted (msg_from 2 ''/random_joke'') empty_data))"
    by (simp add: display_random_joke_def private_get_user_def db_voted_def alice_def bob_def
          msg_from_def empty_data_def chicken_def knock_def jokes_voted_for_def
          jokes_submitted_def)
  show ?thesis
    using g m s random_joke_is_unseen [OF g m s] by simp
qed

section \<open>Best joke\<close>

lemma find_sorted_least:
  assumes "find P xs = Some x" and "sorted (map f xs)" and "y \<in> set xs" and "P y"
  shows "f x \<le> (f y :: int)"
  using assms
  by (induction xs) (auto split: if_splits)

lemma find_Some_set:
  "find P xs = Some x \<Longrightarrow> x \<in> set xs \<and> P x"
  by (induction xs) (auto split: if_splits)

lemma display_best_joke_out:
  assumes "private_get_user db msg ud = Inr (u, ud1)"
  shows "display_best_joke db msg ud =
           \<lparr>raised = None, returned = PyNone, db_after = db,
            data_after = ud\<lparr>current_user := Some u\<rparr>,
            out = (case find (spec_unseen db u) (sort_key vote_count (jokes db)) of
                     None \<Rightarrow> []
                   | Some j \<Rightarrow> [reply_text (Text (body j))])\<rparr>"
proof -
  have "set (sort_key vote_count (jokes db)) \<subseteq> set (jokes db)"
    by simp
  then have "first_unseen db u (order_by vote_count (jokes db))
      = find (spec_unseen db u) (sort_key vote_count (jokes db))"
    unfolding order_by_def by (rule first_unseen_find)
  then show ?thesis
    using assms private_get_user_Inr [OF assms]
    by (simp add: display_best_joke_def Let_def split: option.splits)
qed

text \<open>
  C7. For a registered user, \<open>/best_joke\<close> replies with the body of the first unseen joke
  (neither authored nor voted on by the user) in the list of all jokes sorted ascending by
  \<open>vote_count\<close>, and with nothing if there is none. The joke shown is a joke of the
  repository with the lowest \<open>vote_count\<close> among the user's unseen jokes.
\<close>

theorem best_joke_is_first_unseen_ascending:
  assumes "private_get_user db msg ud = Inr (u, ud1)"
  shows "out (display_best_joke db msg ud) =
           (case find (spec_unseen db u) (sort_key vote_count (jokes db)) of
              None \<Rightarrow> []
            | Some j \<Rightarrow> [reply_text (Text (body j))])
         \<and> sorted (map vote_count (sort_key vote_count (jokes db)))
         \<and> mset (sort_key vote_count (jokes db)) = mset (jokes db)
         \<and> (\<forall>j. find (spec_unseen db u) (sort_key vote_count (jokes db)) = Some j \<longrightarrow>
               j \<in> set (jokes db) \<and> spec_unseen db u j
               \<and> (\<forall>k\<in>set (jokes db). spec_unseen db u k \<longrightarrow> vote_count j \<le> vote_count k))"
proof (intro conjI allI impI)
  show "out (display_best_joke db msg ud) =
           (case find (spec_unseen db u) (sort_key vote_count (jokes db)) of
              None \<Rightarrow> []
            | Some j \<Rightarrow> [reply_text (Text (body j))])"
    by (simp add: display_best_joke_out [OF assms])
  show "sorted (map vote_count (sort_key vote_count (jokes db)))"
    by simp
  show "mset (sort_key vote_count (jokes db)) = mset (jokes db)"
    by simp
next
  fix j
  assume f: "find (spec_unseen db u) (sort_key vote_count (jokes db)) = Some j"
  from find_Some_set [OF f] show "j \<in> set (jokes db)" and "spec_unseen db u j"
    by simp_all
  show "\<forall>k\<in>set (jokes db). spec_unseen db u k \<longrightarrow> vote_count j \<le> vote_count k"
  proof (intro ballI impI)
    fix k
    assume "k \<in> set (jokes db)" and "spec_unseen db u k"
    then show "vote_count j \<le> vote_count k"
      using find_sorted_least [OF f, of vote_count k] by simp
  qed
qed

theorem best_joke_is_first_unseen_ascending_witness:
  "private_get_user db_jokes (msg_from 3 ''/best_joke'') (empty_data\<lparr>current_user := Some 3\<rparr>)
      = Inr (3, empty_data\<lparr>current_user := Some 3\<rparr>)
   \<and> sort_key vote_count (jokes db_jokes) = [knock, chicken]
   \<and> find (spec_unseen db_jokes 3) (sort_key vote_count (jokes db_jokes)) = Some knock
   \<and> out (display_best_joke db_jokes (msg_from 3 ''/best_joke'')
        (empty_data\<lparr>current_user := Some 3\<rparr>)) = [reply_text (Text (body knock))]
   \<and> vote_count knock \<le> vote_count chicken"
proof -
  have g: "private_get_user db_jokes (msg_from 3 ''/best_joke'')
      (empty_data\<lparr>current_user := Some 3\<rparr>) = Inr (3, empty_data\<lparr>current_user := Some 3\<rparr>)"
    by (simp add: private_get_user_def empty_data_def)
  have s: "sort_key vote_count (jokes db_jokes) = [knock, chicken]"
    by (simp add: db_jokes_def chicken_def knock_def)
  have f: "find (spec_unseen db_jokes 3) [knock, chicken] = Some knock"
    by (simp add: spec_unseen_def db_jokes_def knock_def)
  have v: "vote_count knock \<le> vote_count chicken"
    by (simp add: chicken_def knock_def)
  note t = best_joke_is_first_unseen_ascending [OF g, THEN conjunct1]
  have o: "out (display_best_joke db_jokes (msg_from 3 ''/best_joke'')
        (empty_data\<lparr>current_user := Some 3\<rparr>)) = [reply_text (Text (body knock))]"
    unfolding t s f by simp
  show ?thesis
    using g s f o v by simp
qed

section \<open>When nothing is unseen\<close>

lemma find_None_all:
  "(\<forall>x\<in>set xs. \<not> P x) \<Longrightarrow> find P xs = None"
  by (induction xs) auto

text \<open>
  C10. When every joke of the repository is authored by or already voted on by a
  registered user (in particular when the repository is not empty), \<open>/best_joke\<close> sends
  nothing at all, while \<open>/random_joke\<close> sends the \<open>no_new_jokes\<close> response.
\<close>

theorem best_joke_silent_when_exhausted:
  assumes "private_get_user db msg ud = Inr (u, ud1)"
    and "\<forall>j\<in>set (jokes db). \<not> spec_unseen db u j"
    and "mset (shuffle (jokes db)) = mset (jokes db)"
  shows "display_best_joke db msg ud =
           \<lparr>raised = None, returned = PyNone, db_after = db,
            data_after = ud\<lparr>current_user := Some u\<rparr>, out = []\<rparr>
         \<and> display_random_joke shuffle db msg ud =
           \<lparr>raised = None, returned = PyNone, db_after = db,
            data_after = ud\<lparr>current_user := Some u\<rparr>,
            out = [reply_text (Response ''no_new_jokes'')]\<rparr>"
proof
  have "find (spec_unseen db u) (sort_key vote_count (jokes db)) = None"
    using assms(2) by (intro find_None_all) simp
  then show "display_best_joke db msg ud =
           \<lparr>raised = None, returned = PyNone, db_after = db,
            data_after = ud\<lparr>current_user := Some u\<rparr>, out = []\<rparr>"
    by (simp add: display_best_joke_out [OF assms(1)])
next
  have s: "set (shuffle (jokes db)) = set (jokes db)"
    using assms(3) by (rule mset_eq_setD)
  have "first_unseen db u (shuffle (jokes db)) = find (spec_unseen db u) (shuffle (jokes db))"
    using s by (intro first_unseen_find) simp
  also have "\<dots> = None"
    using assms(2) s by (intro find_None_all) simp
  finally show "display_random_joke shuffle db msg ud =
           \<lparr>raised = None, returned = PyNone, db_after = db,
            data_after = ud\<lparr>current_user := Some u\<rparr>,
            out = [reply_text (Response ''no_new_jokes'')]\<rparr>"
    using assms(1) private_get_user_Inr [OF assms(1)]
    by (simp add: display_random_joke_def Let_def)
qed

theorem best_joke_silent_when_exhausted_witness:
  "private_get_user db_voted (msg_from 1 ''/best_joke'') empty_data
      = Inr (1, empty_data\<lparr>current_user := Some 1\<rparr>)
   \<and> jokes db_voted = [chicken, knock]
   \<and> \<not> spec_unseen db_voted 1 chicken \<and> \<not> spec_unseen db_voted 1 knock
   \<and> mset (rev (jokes db_voted)) = mset (jokes db_voted)
   \<and> out (display_best_joke db_voted (msg_from 1 ''/best_joke'') empty_data) = []
   \<and> out (display_random_joke rev db_voted (msg_from 1 ''/best_joke'') empty_data)
       = [reply_text (Response ''no_new_jokes'')]"
proof -
  have g: "private_get_user db_voted (msg_from 1 ''/best_joke'') empty_data
      = Inr (1, empty_data\<lparr>current_user := Some 1\<rparr>)"
    by (simp add: private_get_user_def db_voted_def alice_def bob_def msg_from_def
          empty_data_def)
  have j: "jokes db_voted = [chicken, knock]"
    by (simp add: db_voted_def)
  have c: "\<not> spec_unseen db_voted 1 chicken \<and> \<not> spec_unseen db_voted 1 knock"
    by (simp add: spec_unseen_def db_voted_def chicken_def knock_def)
  have a: "\<forall>j\<in>set (jokes db_voted). \<not> spec_unseen db_voted 1 j"
    using j c by simp
  have m: "mset (rev (jokes db_voted)) = mset (jokes db_voted)"
    by simp
  show ?thesis
    using g j c m best_joke_silent_when_exhausted [OF g a, where shuffle = rev, OF m] by simp
qed

section \<open>Leaderboard and rank\<close>

lemma list_index_Inr:
  assumes "list_index u xs = Inr i"
  shows "i < length xs \<and> user_id (xs ! i) = u \<and> (\<forall>k<i. user_id (xs ! k) \<noteq> u)"
  using assms
proof (induction xs arbitrary: i)
  case Nil
  then show ?case by simp
next
  case (Cons x xs)
  show ?case
  proof (cases "user_id x = u")
    case True
    with Cons.prems show ?thesis by simp
  next
    case False
    with Cons.prems obtain i' where i': "list_index u xs = Inr i'" "i = Suc i'"
      by (auto split: sum.splits)
    from Cons.IH [OF i'(1)] False i'(2) show ?thesis
      by (auto simp add: less_Suc_eq_0_disj)
  qed
qed

lemma list_index_found:
  assumes "u \<in> user_id ` set xs"
  shows "\<exists>i. list_index u xs = Inr i"
  using assms
  by (induction xs) (auto split: sum.splits)

lemma sorted_take_le_drop:
  assumes "sorted (map f xs)" and "x \<in> set (take n xs)" and "y \<in> set (drop n xs)"
  shows "f x \<le> (f y :: int)"
proof -
  have "sorted (map f (take n xs) @ map f (drop n xs))"
    using assms(1) by (simp flip: map_append)
  then show ?thesis
    using assms(2,3) by (auto simp add: sorted_append)
qed

lemma sorted_position_bounds:
  assumes "sorted (map f xs)" and "i < length xs"
  shows "length (filter (\<lambda>x. f x < (f (xs ! i) :: int)) xs) \<le> i
         \<and> i < length (filter (\<lambda>x. f x \<le> f (xs ! i)) xs)"
proof -
  have ge: "f (xs ! i) \<le> f y" if "y \<in> set (drop i xs)" for y
  proof -
    from that obtain k where k: "k < length xs - i" "y = xs ! (i + k)"
      by (auto simp add: in_set_conv_nth)
    have "map f xs ! i \<le> map f xs ! (i + k)"
      using assms(1) k(1) by (intro sorted_nth_mono) simp_all
    then show ?thesis using k assms(2) by simp
  qed
  have le: "f y \<le> f (xs ! i)" if "y \<in> set (take (Suc i) xs)" for y
  proof -
    from that obtain k where k: "k < Suc i" "k < length xs" "y = xs ! k"
      by (auto simp add: in_set_conv_nth)
    have "map f xs ! k \<le> map f xs ! i"
      using assms k(1) by (intro sorted_nth_mono) simp_all
    then show ?thesis using k assms(2) by simp
  qed
  have "filter (\<lambda>x. f x < f (xs ! i)) (drop i xs) = []"
    using ge by (fastforce simp add: filter_empty_conv not_less)
  then have "filter (\<lambda>x. f x < f (xs ! i)) xs = filter (\<lambda>x. f x < f (xs ! i)) (take i xs)"
    by (metis append_Nil2 append_take_drop_id filter_append)
  then have lo: "length (filter (\<lambda>x. f x < f (xs ! i)) xs) \<le> i"
    by (metis length_filter_le length_take min.cobounded2 order_trans)
  have "filter (\<lambda>x. f x \<le> f (xs ! i)) (take (Suc i) xs) = take (Suc i) xs"
    using le by (simp add: filter_id_conv)
  then have "length (filter (\<lambda>x. f x \<le> f (xs ! i)) xs)
      = Suc i + length (filter (\<lambda>x. f x \<le> f (xs ! i)) (drop (Suc i) xs))"
    using assms(2)
    by (metis Suc_leI append_take_drop_id filter_append length_append length_take min.absorb2)
  with lo show ?thesis by simp
qed

lemma length_filter_order_by:
  "length (filter P (order_by f rows)) = length (filter P rows)"
proof -
  have "mset (filter P (order_by f rows)) = mset (filter P rows)"
    by (simp add: order_by_def)
  then show ?thesis by (metis size_mset)
qed

text \<open>\<open>str_int\<close> writes a number that reads back as itself.\<close>

lemma str_nat_digits:
  "str_nat n \<noteq> [] \<and> (\<forall>c\<in>set (str_nat n). 48 \<le> c \<and> c \<le> 57)"
proof (induction n rule: str_nat.induct)
  case (1 n)
  show ?case
  proof (cases "n < 10")
    case True
    then show ?thesis by (subst (1 2) str_nat.simps) simp
  next
    case False
    have "n mod 10 < 10" by simp
    then have "48 + n mod 10 \<le> 57" by linarith
    with False 1 show ?thesis by (subst (1 2) str_nat.simps) simp
  qed
qed

lemma digits_value_str_nat:
  "spec_digits_value (str_nat n) = n"
proof (induction n rule: str_nat.induct)
  case (1 n)
  show ?case
  proof (cases "n < 10")
    case True
    then show ?thesis
      by (subst str_nat.simps) (simp add: spec_digits_value_def)
  next
    case False
    with 1 have "foldl (\<lambda>a c. 10 * a + (c - 48)) 0 (str_nat (n div 10)) = n div 10"
      by (simp add: spec_digits_value_def)
    with False show ?thesis
      by (subst str_nat.simps) (simp add: spec_digits_value_def)
  qed
qed

lemma int_value_str_int:
  "spec_int_value (str_int r) = r"
proof (cases "r < 0")
  case True
  then show ?thesis
    by (simp add: spec_int_value_def str_int_def digits_value_str_nat)
next
  case False
  obtain c ds where s: "str_nat (nat r) = c # ds"
    using str_nat_digits [of "nat r"] by (cases "str_nat (nat r)") auto
  then have "c \<noteq> 45"
    using str_nat_digits [of "nat r"] by auto
  with False s digits_value_str_nat [of "nat r"] show ?thesis
    by (simp add: spec_int_value_def str_int_def)
qed

lemma map_enumerate_nth:
  "map g (enumerate 0 xs) = map (\<lambda>k. g (k, xs ! k)) [0..<length xs]"
  by (rule nth_equalityI) (simp_all add: nth_enumerate_eq)

lemma top10_out:
  assumes "private_get_user db msg ud = Inr (u, ud1)"
  shows "out (top10 db msg ud) =
           [reply_text (Text (concat (map
              (\<lambda>k. str_int (int k + 1) @ py ''. ''
                     @ username (order_by score (users db) ! k) @ py '' - score: ''
                     @ str_int (score (order_by score (users db) ! k)) @ [10])
              [0..<min 10 (length (users db))])))]"
proof -
  let ?S = "order_by score (users db)"
  have len: "length (take 10 ?S) = min 10 (length (users db))"
    by (simp add: order_by_def min.commute)
  have "map (\<lambda>(index, usr). str_int (int index + 1) @ py ''. '' @ username usr
              @ py '' - score: '' @ str_int (score usr) @ [10])
          (enumerate 0 (take 10 ?S))
        = map (\<lambda>k. str_int (int k + 1) @ py ''. '' @ username (?S ! k)
              @ py '' - score: '' @ str_int (score (?S ! k)) @ [10])
          [0..<min 10 (length (users db))]"
    unfolding map_enumerate_nth len by (rule map_cong) auto
  then show ?thesis
    using assms by (simp add: top10_def Let_def)
qed

lemma profile_out:
  assumes "private_get_user db msg ud = Inr (u, ud1)"
    and "list_index u (order_by score (users db)) = Inr i"
  shows "out (profile avg db msg ud) =
           [reply_markdown (Text
              (py ''*'' @ username (order_by score (users db) ! i) @ py ''*'' @ [10]
               @ py ''rank: '' @ str_int (int i + 1) @ py ''. (''
               @ str_int (score (order_by score (users db) ! i)) @ py '' points)'' @ [10]
               @ py ''jokes submitted: '' @ str_int (int (length (jokes_submitted db u)))
               @ py '' ('' @ avg db u @ py '' points/joke)''))]"
  using assms by (simp add: profile_def Let_def)

text \<open>
  C6. For a registered user, \<open>/top10\<close> replies with one line per user for the first 10
  users of the list of all users ordered ascending by score: line \<open>k\<close> (from 0) reads
  \<open>k + 1\<close>, a dot, the name of the user at position \<open>k\<close> of that list, and that user's score.
  The listed users are the lowest-scoring ones: none of them has a higher score than a
  user left out. \<open>/profile\<close> shows, after \<open>rank:\<close>, one more than the position of the user's
  row in the same list, together with that row's name and score; the rank is more than
  the number of users with a lower score and at most the number of users whose score is
  not higher, and a user who has a row always gets a rank. The numbers are written in
  decimal and read back as themselves.
\<close>

theorem top10_and_rank_ascending:
  assumes "private_get_user db msg ud = Inr (u, ud1)"
  shows "out (top10 db msg ud) =
           [reply_text (Text (concat (map
              (\<lambda>k. str_int (int k + 1) @ py ''. ''
                     @ username (order_by score (users db) ! k) @ py '' - score: ''
                     @ str_int (score (order_by score (users db) ! k)) @ [10])
              [0..<min 10 (length (users db))])))]
         \<and> (\<forall>r. spec_int_value (str_int r) = r)
         \<and> sorted (map score (order_by score (users db)))
         \<and> mset (order_by score (users db)) = mset (users db)
         \<and> (\<forall>x\<in>set (take 10 (order_by score (users db))).
              \<forall>y\<in>set (drop 10 (order_by score (users db))). score x \<le> score y)
         \<and> (\<forall>i. list_index u (order_by score (users db)) = Inr i \<longrightarrow>
              i < length (users db) \<and> user_id (order_by score (users db) ! i) = u
              \<and> (\<forall>k<i. user_id (order_by score (users db) ! k) \<noteq> u)
              \<and> length (filter (\<lambda>x. score x < score (order_by score (users db) ! i))
                    (users db)) \<le> i
              \<and> i < length (filter (\<lambda>x. score x \<le> score (order_by score (users db) ! i))
                    (users db))
              \<and> out (profile avg db msg ud) =
                  [reply_markdown (Text
                     (py ''*'' @ username (order_by score (users db) ! i) @ py ''*'' @ [10]
                      @ py ''rank: '' @ str_int (int i + 1) @ py ''. (''
                      @ str_int (score (order_by score (users db) ! i)) @ py '' points)''
                      @ [10] @ py ''jokes submitted: ''
                      @ str_int (int (length (jokes_submitted db u)))
                      @ py '' ('' @ avg db u @ py '' points/joke)''))])
         \<and> (u \<in> user_id ` set (users db) \<longrightarrow>
              (\<exists>i. list_index u (order_by score (users db)) = Inr i))"
proof -
  let ?S = "order_by score (users db)"
  have len: "length ?S = length (users db)"
    by (simp add: order_by_def)
  have a1: "out (top10 db msg ud) =
           [reply_text (Text (concat (map
              (\<lambda>k. str_int (int k + 1) @ py ''. '' @ username (?S ! k) @ py '' - score: ''
                     @ str_int (score (?S ! k)) @ [10])
              [0..<min 10 (length (users db))])))]"
    by (rule top10_out [OF assms])
  have a2: "\<forall>r. spec_int_value (str_int r) = r"
    by (simp add: int_value_str_int)
  have a3: "sorted (map score ?S)"
    by (simp add: order_by_def)
  have a4: "mset ?S = mset (users db)"
    by (simp add: order_by_def)
  have a5: "\<forall>x\<in>set (take 10 ?S). \<forall>y\<in>set (drop 10 ?S). score x \<le> score y"
    using sorted_take_le_drop [OF a3] by blast
  have a6: "\<forall>i. list_index u ?S = Inr i \<longrightarrow>
              i < length (users db) \<and> user_id (?S ! i) = u
              \<and> (\<forall>k<i. user_id (?S ! k) \<noteq> u)
              \<and> length (filter (\<lambda>x. score x < score (?S ! i)) (users db)) \<le> i
              \<and> i < length (filter (\<lambda>x. score x \<le> score (?S ! i)) (users db))
              \<and> out (profile avg db msg ud) =
                  [reply_markdown (Text
                     (py ''*'' @ username (?S ! i) @ py ''*'' @ [10]
                      @ py ''rank: '' @ str_int (int i + 1) @ py ''. (''
                      @ str_int (score (?S ! i)) @ py '' points)''
                      @ [10] @ py ''jokes submitted: ''
                      @ str_int (int (length (jokes_submitted db u)))
                      @ py '' ('' @ avg db u @ py '' points/joke)''))]"
  proof (intro allI impI)
    fix i
    assume i: "list_index u ?S = Inr i"
    have b: "i < length ?S"
      using list_index_Inr [OF i] by simp
    have c: "length (filter (\<lambda>x. score x < score (?S ! i)) (users db)) \<le> i
         \<and> i < length (filter (\<lambda>x. score x \<le> score (?S ! i)) (users db))"
      using sorted_position_bounds [OF a3 b] by (simp only: length_filter_order_by)
    show "i < length (users db) \<and> user_id (?S ! i) = u
              \<and> (\<forall>k<i. user_id (?S ! k) \<noteq> u)
              \<and> length (filter (\<lambda>x. score x < score (?S ! i)) (users db)) \<le> i
              \<and> i < length (filter (\<lambda>x. score x \<le> score (?S ! i)) (users db))
              \<and> out (profile avg db msg ud) =
                  [reply_markdown (Text
                     (py ''*'' @ username (?S ! i) @ py ''*'' @ [10]
                      @ py ''rank: '' @ str_int (int i + 1) @ py ''. (''
                      @ str_int (score (?S ! i)) @ py '' points)''
                      @ [10] @ py ''jokes submitted: ''
                      @ str_int (int (length (jokes_submitted db u)))
                      @ py '' ('' @ avg db u @ py '' points/joke)''))]"
      using list_index_Inr [OF i] profile_out [OF assms i, of avg] len c by simp
  qed
  have a7: "u \<in> user_id ` set (users db) \<longrightarrow> (\<exists>i. list_index u ?S = Inr i)"
  proof
    assume "u \<in> user_id ` set (users db)"
    then have "u \<in> user_id ` set ?S"
      by (simp add: order_by_def)
    then show "\<exists>i. list_index u ?S = Inr i"
      by (rule list_index_found)
  qed
  from a1 a2 a3 a4 a5 a6 a7 show ?thesis
    by (intro conjI)
qed

theorem top10_and_rank_ascending_witness:
  "private_get_user \<lparr>users = [bob, alice], jokes = [chicken, knock], votes = []\<rparr>
        (msg_from 2 ''/top10'') empty_data
      = Inr (2, empty_data\<lparr>current_user := Some 2\<rparr>)
   \<and> private_get_user \<lparr>users = [bob, alice], jokes = [chicken, knock], votes = []\<rparr>
        (msg_from 1 ''/profile'') empty_data
      = Inr (1, empty_data\<lparr>current_user := Some 1\<rparr>)
   \<and> order_by score [bob, alice] = [alice, bob]
   \<and> out (top10 \<lparr>users = [bob, alice], jokes = [chicken, knock], votes = []\<rparr>
        (msg_from 2 ''/top10'') empty_data)
      = [reply_text (Text (py ''1. alice - score: 0'' @ [10] @ py ''2. bo12345 - score: 3''
           @ [10]))]
   \<and> list_index 2 (order_by score [bob, alice]) = Inr 1
   \<and> out (profile (\<lambda>db u. py ''-1'')
        \<lparr>users = [bob, alice], jokes = [chicken, knock], votes = []\<rparr>
        (msg_from 2 ''/top10'') empty_data)
      = [reply_markdown (Text (py ''*bo12345*'' @ [10] @ py ''rank: 2. (3 points)'' @ [10]
           @ py ''jokes submitted: 1 (-1 points/joke)''))]
   \<and> list_index 1 (order_by score [bob, alice]) = Inr 0
   \<and> out (profile (\<lambda>db u. py ''0'')
        \<lparr>users = [bob, alice], jokes = [chicken, knock], votes = []\<rparr>
        (msg_from 1 ''/profile'') empty_data)
      = [reply_markdown (Text (py ''*alice*'' @ [10] @ py ''rank: 1. (0 points)'' @ [10]
           @ py ''jokes submitted: 1 (0 points/joke)''))]"
proof -
  let ?db = "\<lparr>users = [bob, alice], jokes = [chicken, knock], votes = []\<rparr>"
  have g: "private_get_user ?db (msg_from 2 ''/top10'') empty_data
      = Inr (2, empty_data\<lparr>current_user := Some 2\<rparr>)"
    by (simp add: private_get_user_def alice_def bob_def msg_from_def empty_data_def)
  have g1: "private_get_user ?db (msg_from 1 ''/profile'') empty_data
      = Inr (1, empty_data\<lparr>current_user := Some 1\<rparr>)"
    by (simp add: private_get_user_def alice_def bob_def msg_from_def empty_data_def)
  have s: "order_by score [bob, alice] = [alice, bob]"
    by (simp add: order_by_def alice_def bob_def)
  have i: "list_index 2 (order_by score (users ?db)) = Inr 1"
    by (simp add: s) (simp add: alice_def bob_def)
  have i1: "list_index 1 (order_by score (users ?db)) = Inr 0"
    by (simp add: s) (simp add: alice_def bob_def)
  have n: "str_int 1 = [49]" "str_int 2 = [50]" "str_int 0 = [48]" "str_int 3 = [51]"
    by (simp_all add: str_int_def str_nat.simps)
  have j: "length (jokes_submitted ?db 2) = 1" "length (jokes_submitted ?db 1) = 1"
    by (simp_all add: jokes_submitted_def chicken_def knock_def)
  note t = top10_and_rank_ascending [OF g, THEN conjunct1]
  note p = top10_and_rank_ascending [OF g, where avg = "\<lambda>db u. py ''-1''",
      THEN conjunct2, THEN conjunct2, THEN conjunct2, THEN conjunct2, THEN conjunct2,
      THEN conjunct1, rule_format, OF i, THEN conjunct2, THEN conjunct2, THEN conjunct2,
      THEN conjunct2, THEN conjunct2]
  note p1 = top10_and_rank_ascending [OF g1, where avg = "\<lambda>db u. py ''0''",
      THEN conjunct2, THEN conjunct2, THEN conjunct2, THEN conjunct2, THEN conjunct2,
      THEN conjunct1, rule_format, OF i1, THEN conjunct2, THEN conjunct2, THEN conjunct2,
      THEN conjunct2, THEN conjunct2]
  have o1: "out (top10 ?db (msg_from 2 ''/top10'') empty_data)
      = [reply_text (Text (py ''1. alice - score: 0'' @ [10] @ py ''2. bo12345 - score: 3''
           @ [10]))]"
    unfolding t by (simp add: s upt_rec n) (simp add: alice_def bob_def py_def n)
  have o2: "out (profile (\<lambda>db u. py ''-1'') ?db (msg_from 2 ''/top10'') empty_data)
      = [reply_markdown (Text (py ''*bo12345*'' @ [10] @ py ''rank: 2. (3 points)'' @ [10]
           @ py ''jokes submitted: 1 (-1 points/joke)''))]"
    unfolding p by (simp add: s j n) (simp add: bob_def py_def n)
  have o3: "out (profile (\<lambda>db u. py ''0'') ?db (msg_from 1 ''/profile'') empty_data)
      = [reply_markdown (Text (py ''*alice*'' @ [10] @ py ''rank: 1. (0 points)'' @ [10]
           @ py ''jokes submitted: 1 (0 points/joke)''))]"
    unfolding p1 by (simp add: s j n) (simp add: alice_def py_def n)
  show ?thesis
    using g g1 s i i1 o1 o2 o3 by simp
qed

end
